theory Spec2Isabelle
  imports Main "HOL-Library.Log_Nat"
begin

section \<open>The weather server: condition mapping, compass helper and normalizer\<close>

text \<open>
  A shallow embedding of \<^verbatim>\<open>srv/server.go\<close>. Go's \<^verbatim>\<open>int\<close> is modelled as \<^typ>\<open>int\<close>
  (the values are read and compared, never added), Go strings as byte lists
  (\<^typ>\<open>string\<close>), a finite \<^verbatim>\<open>float64\<close> as the rational number it denotes.
\<close>

subsection \<open>Icon literals\<close>

text \<open>
  The second component of every \<^verbatim>\<open>return\<close> of \<^verbatim>\<open>weatherCodeToCondition\<close> is a string
  literal outside ASCII. Each constant below is the byte sequence of one such literal,
  as it stands in the source file; the name says which glyph the line draws.
\<close>

definition emoji_sun :: string where
  "emoji_sun = [CHR 0xC3, CHR 0xA2, CHR 0xCB, CHR 0x9C, CHR 0xE2, CHR 0x82, CHR 0xAC,
                CHR 0xC3, CHR 0xAF, CHR 0xC2, CHR 0xB8]"

definition emoji_moon :: string where
  "emoji_moon = [CHR 0xC3, CHR 0xB0, CHR 0xC5, CHR 0xB8, CHR 0xC5, CHR 0x92,
                 CHR 0xE2, CHR 0x84, CHR 0xA2]"

definition emoji_sun_small_cloud :: string where
  "emoji_sun_small_cloud = [CHR 0xC3, CHR 0xB0, CHR 0xC5, CHR 0xB8, CHR 0xC5, CHR 0x92,
                            CHR 0xC2, CHR 0xA4, CHR 0xC3, CHR 0xAF, CHR 0xC2, CHR 0xB8]"

definition emoji_sun_behind_cloud :: string where
  "emoji_sun_behind_cloud = [CHR 0xC3, CHR 0xA2, CHR 0xE2, CHR 0x80, CHR 0xBA,
                             CHR 0xE2, CHR 0x80, CHR 0xA6]"

definition emoji_cloud :: string where
  "emoji_cloud = [CHR 0xC3, CHR 0xA2, CHR 0xCB, CHR 0x9C, CHR 0xC3, CHR 0xAF, CHR 0xC2, CHR 0xB8]"

definition emoji_fog :: string where
  "emoji_fog = [CHR 0xC3, CHR 0xB0, CHR 0xC5, CHR 0xB8, CHR 0xC5, CHR 0x92,
                CHR 0xC2, CHR 0xAB, CHR 0xC3, CHR 0xAF, CHR 0xC2, CHR 0xB8]"

definition emoji_rain_cloud :: string where
  "emoji_rain_cloud = [CHR 0xC3, CHR 0xB0, CHR 0xC5, CHR 0xB8, CHR 0xC5, CHR 0x92,
                       CHR 0xC2, CHR 0xA7, CHR 0xC3, CHR 0xAF, CHR 0xC2, CHR 0xB8]"

definition emoji_snowflake :: string where
  "emoji_snowflake = [CHR 0xC3, CHR 0xA2, CHR 0xE2, CHR 0x80, CHR 0x9E,
                      CHR 0xC3, CHR 0xAF, CHR 0xC2, CHR 0xB8]"

definition emoji_snow_cloud :: string where
  "emoji_snow_cloud = [CHR 0xC3, CHR 0xB0, CHR 0xC5, CHR 0xB8, CHR 0xC5, CHR 0x92,
                       CHR 0xC2, CHR 0xA8, CHR 0xC3, CHR 0xAF, CHR 0xC2, CHR 0xB8]"

definition emoji_sun_rain_cloud :: string where
  "emoji_sun_rain_cloud = [CHR 0xC3, CHR 0xB0, CHR 0xC5, CHR 0xB8, CHR 0xC5, CHR 0x92,
                           CHR 0xC2, CHR 0xA6, CHR 0xC3, CHR 0xAF, CHR 0xC2, CHR 0xB8]"

definition emoji_thunder_cloud :: string where
  "emoji_thunder_cloud = [CHR 0xC3, CHR 0xA2, CHR 0xE2, CHR 0x80, CHR 0xBA, CHR 0xCB, CHR 0x86,
                          CHR 0xC3, CHR 0xAF, CHR 0xC2, CHR 0xB8]"

definition emoji_question :: string where
  "emoji_question = [CHR 0xC3, CHR 0xA2, CHR 0xE2, CHR 0x80, CHR 0x9C]"

subsection \<open>\<^verbatim>\<open>weatherCodeToCondition\<close>\<close>

text \<open>
  The \<^verbatim>\<open>switch\<close> on the code, case by case in the order of the source; the
  \<^verbatim>\<open>default\<close> branch is the last \<open>else\<close>.
\<close>

definition weatherCodeToCondition :: "int \<Rightarrow> bool \<Rightarrow> string \<times> string" where
  "weatherCodeToCondition code isDay =
    (if code = 0 then
       (if isDay then (''Clear sky'', emoji_sun) else (''Clear sky'', emoji_moon))
     else if code = 1 then
       (if isDay then (''Mainly clear'', emoji_sun_small_cloud)
        else (''Mainly clear'', emoji_moon))
     else if code = 2 then (''Partly cloudy'', emoji_sun_behind_cloud)
     else if code = 3 then (''Overcast'', emoji_cloud)
     else if code = 45 \<or> code = 48 then (''Foggy'', emoji_fog)
     else if code = 51 \<or> code = 53 \<or> code = 55 then (''Drizzle'', emoji_rain_cloud)
     else if code = 56 \<or> code = 57 then
       (''Freezing drizzle'', emoji_rain_cloud @ emoji_snowflake)
     else if code = 61 \<or> code = 63 \<or> code = 65 then (''Rain'', emoji_rain_cloud)
     else if code = 66 \<or> code = 67 then
       (''Freezing rain'', emoji_rain_cloud @ emoji_snowflake)
     else if code = 71 \<or> code = 73 \<or> code = 75 then (''Snow'', emoji_snow_cloud)
     else if code = 77 then (''Snow grains'', emoji_snow_cloud)
     else if code = 80 \<or> code = 81 \<or> code = 82 then (''Rain showers'', emoji_sun_rain_cloud)
     else if code = 85 \<or> code = 86 then (''Snow showers'', emoji_snow_cloud)
     else if code = 95 then (''Thunderstorm'', emoji_thunder_cloud)
     else if code = 96 \<or> code = 99 then (''Thunderstorm with hail'', emoji_thunder_cloud)
     else (''Unknown'', emoji_question))"

text \<open>The codes that have a row of their own in the condition-mapping table.\<close>

definition mapped_codes :: "int set" where
  "mapped_codes = {0, 1, 2, 3, 45, 48, 51, 53, 55, 56, 57, 61, 63, 65, 66, 67,
                   71, 73, 75, 77, 80, 81, 82, 85, 86, 95, 96, 99}"

subsection \<open>The provider response and the display structures\<close>

type_synonym float64 = rat

text \<open>The anonymous struct \<^verbatim>\<open>openMeteoResponse.Current\<close>.\<close>

record current =
  cur_Time :: string
  cur_Temperature2m :: float64
  cur_ApparentTemp :: float64
  cur_RelativeHumidity :: int
  cur_WindSpeed10m :: float64
  cur_WindDirection10m :: int
  cur_WeatherCode :: int
  cur_IsDay :: int
  cur_Precipitation :: float64
  cur_CloudCover :: int

text \<open>
  The anonymous struct \<^verbatim>\<open>openMeteoResponse.Hourly\<close>: five slices, indexed by position.
  A slice that the payload leaves out or gives as \<^verbatim>\<open>null\<close> decodes to the empty list.
\<close>

record hourly =
  hr_Time :: "string list"
  hr_Temperature2m :: "float64 list"
  hr_WeatherCode :: "int list"
  hr_PrecipProb :: "int list"
  hr_IsDay :: "int list"

record openMeteoResponse =
  Current :: current
  Hourly :: hourly

record WeatherData =
  wd_Temperature :: float64
  wd_FeelsLike :: float64
  wd_Humidity :: int
  wd_WindSpeed :: float64
  wd_WindDirection :: int
  wd_WeatherCode :: int
  wd_IsDay :: bool
  wd_Precipitation :: float64
  wd_CloudCover :: int
  wd_LastUpdated :: string
  wd_Condition :: string
  wd_ConditionEmoji :: string

record HourlyForecast =
  hf_Time :: string
  hf_Hour :: string
  hf_Temperature :: float64
  hf_WeatherCode :: int
  hf_ConditionEmoji :: string
  hf_PrecipProb :: int
  hf_IsDay :: bool

subsection \<open>\<^verbatim>\<open>time.Parse\<close> with the layout \<^verbatim>\<open>2006-01-02T15:04\<close> and \<^verbatim>\<open>Format("3 PM")\<close>\<close>

text \<open>
  The two calls into Go's \<^verbatim>\<open>time\<close> package, specialised to the layouts the server
  passes. The layout \<^verbatim>\<open>2006-01-02T15:04\<close> splits into the chunks
  \<^verbatim>\<open>2006\<close> (four-digit year), \<^verbatim>\<open>-\<close> \<^verbatim>\<open>01\<close> (two-digit month),
  \<^verbatim>\<open>-\<close> \<^verbatim>\<open>02\<close> (two-digit day), \<^verbatim>\<open>T\<close> \<^verbatim>\<open>15\<close> (hour of the day, one
  or two digits) and \<^verbatim>\<open>:\<close> \<^verbatim>\<open>04\<close> (two-digit minute); every failure of the library
  (a literal that does not match, a field that is not a number, a field out of range,
  text left over, a day the month does not have) is the value \<open>None\<close>.
\<close>

record go_time =
  t_year :: int
  t_month :: nat
  t_day :: nat
  t_hour :: nat
  t_min :: nat

definition isDigitChar :: "char \<Rightarrow> bool" where
  "isDigitChar c = ((48::nat) \<le> of_char c \<and> of_char c \<le> (57::nat))"

definition isDigit :: "string \<Rightarrow> nat \<Rightarrow> bool" where
  "isDigit s i = (if length s \<le> i then False else isDigitChar (s ! i))"

definition digit :: "char \<Rightarrow> nat" where
  "digit c = of_char c - 48"

text \<open>\<^verbatim>\<open>getnum\<close>: a one- or two-digit number; \<open>fixed\<close> demands two digits.\<close>

definition getnum :: "string \<Rightarrow> bool \<Rightarrow> (nat \<times> string) option" where
  "getnum s fixed =
    (if \<not> isDigit s 0 then None
     else if \<not> isDigit s 1 then
       (if fixed then None else Some (digit (s ! 0), drop 1 s))
     else Some (digit (s ! 0) * 10 + digit (s ! 1), drop 2 s))"

text \<open>
  \<^verbatim>\<open>leadingInt\<close> reads the leading decimal digits (its overflow guard needs more than
  eighteen digits; \<^verbatim>\<open>atoi\<close> is called on four bytes), and \<^verbatim>\<open>atoi\<close> accepts an
  optional sign and refuses any rest.
\<close>

definition leadingInt :: "string \<Rightarrow> nat \<times> string" where
  "leadingInt s =
    (foldl (\<lambda>x c. x * 10 + digit c) 0 (takeWhile isDigitChar s), dropWhile isDigitChar s)"

definition atoi :: "string \<Rightarrow> int option" where
  "atoi s =
    (let signed = (s \<noteq> [] \<and> (hd s = CHR ''-'' \<or> hd s = CHR ''+''));
         neg = (signed \<and> hd s = CHR ''-'');
         (q, rem) = leadingInt (if signed then tl s else s)
     in if rem \<noteq> [] then None else Some (if neg then - int q else int q))"

text \<open>
  \<^verbatim>\<open>skip\<close> consumes a literal of the layout. The literals of this layout
  (\<^verbatim>\<open>-\<close>, \<^verbatim>\<open>T\<close>, \<^verbatim>\<open>:\<close>) hold no space, so the branch of \<^verbatim>\<open>skip\<close> that
  collapses runs of spaces is never entered.
\<close>

fun skip :: "string \<Rightarrow> string \<Rightarrow> string option" where
  "skip v [] = Some v"
| "skip [] (p # ps) = None"
| "skip (c # v) (p # ps) = (if c \<noteq> p then None else skip v ps)"

definition isLeap :: "int \<Rightarrow> bool" where
  "isLeap year = (year mod 4 = 0 \<and> (year mod 100 \<noteq> 0 \<or> year mod 400 = 0))"

definition daysIn :: "nat \<Rightarrow> int \<Rightarrow> nat" where
  "daysIn m year =
    (if m = 2 then (if isLeap year then 29 else 28)
     else if m = 4 \<or> m = 6 \<or> m = 9 \<or> m = 11 then 30 else 31)"

definition time_Parse :: "string \<Rightarrow> go_time option" where
  "time_Parse v0 =
    (if length v0 < 4 \<or> \<not> isDigit v0 0 then None else
     case atoi (take 4 v0) of None \<Rightarrow> None | Some year \<Rightarrow>
     case skip (drop 4 v0) ''-'' of None \<Rightarrow> None | Some v1 \<Rightarrow>
     case getnum v1 True of None \<Rightarrow> None | Some (month, v2) \<Rightarrow>
     if month \<le> 0 \<or> 12 < month then None else
     case skip v2 ''-'' of None \<Rightarrow> None | Some v3 \<Rightarrow>
     case getnum v3 True of None \<Rightarrow> None | Some (day, v4) \<Rightarrow>
     case skip v4 ''T'' of None \<Rightarrow> None | Some v5 \<Rightarrow>
     case getnum v5 False of None \<Rightarrow> None | Some (hour, v6) \<Rightarrow>
     if 24 \<le> hour then None else
     case skip v6 '':'' of None \<Rightarrow> None | Some v7 \<Rightarrow>
     case getnum v7 True of None \<Rightarrow> None | Some (minute, v8) \<Rightarrow>
     if 60 \<le> minute then None else
     if v8 \<noteq> [] then None else
     if day < 1 \<or> day > daysIn month year then None
     else Some \<lparr>t_year = year, t_month = month, t_day = day, t_hour = hour, t_min = minute\<rparr>)"

text \<open>\<^verbatim>\<open>appendInt\<close> with width 0, on a number that is not negative.\<close>

fun appendInt :: "nat \<Rightarrow> string" where
  "appendInt n =
    (if n < 10 then [char_of (48 + n)] else appendInt (n div 10) @ [char_of (48 + n mod 10)])"

text \<open>
  The layout \<^verbatim>\<open>3 PM\<close>: the hour on the 12-hour clock without padding (noon and
  midnight are 12), a space, and \<^verbatim>\<open>PM\<close> from noon on, \<^verbatim>\<open>AM\<close> before.
\<close>

definition time_Format :: "go_time \<Rightarrow> string" where
  "time_Format t =
    (let hr = t_hour t mod 12
     in appendInt (if hr = 0 then 12 else hr) @ '' '' @
        (if t_hour t \<ge> 12 then ''PM'' else ''AM''))"

text \<open>The variable \<^verbatim>\<open>hourDisplay\<close> of the loop body.\<close>

definition hourDisplay :: "string \<Rightarrow> string" where
  "hourDisplay timeStr =
    (case time_Parse timeStr of Some t \<Rightarrow> time_Format t | None \<Rightarrow> timeStr)"

subsection \<open>\<^verbatim>\<open>fetchWeather\<close>\<close>

text \<open>
  Indexing a slice outside its bounds panics; the panic carries the index. A
  \<^verbatim>\<open>float64\<close> that does not fit the target of a conversion to \<^verbatim>\<open>int\<close> has no
  defined result.
\<close>

datatype runtime_error = IndexOutOfRange int | ConversionOutOfRange

definition index_at :: "'a list \<Rightarrow> nat \<Rightarrow> runtime_error + 'a" where
  "index_at xs i = (if i < length xs then Inr (xs ! i) else Inl (IndexOutOfRange (int i)))"

text \<open>
  The body of the loop after the \<^verbatim>\<open>break\<close> test, up to the struct literal that is
  appended: the reads of \<^verbatim>\<open>IsDay[i]\<close>, \<^verbatim>\<open>WeatherCode[i]\<close>, \<^verbatim>\<open>PrecipProb[i]\<close>
  and \<^verbatim>\<open>Temperature2m[i]\<close> in the order of the source, each a possible panic.
\<close>

definition hourly_entry :: "hourly \<Rightarrow> nat \<Rightarrow> string \<Rightarrow> runtime_error + HourlyForecast" where
  "hourly_entry h i timeStr =
    (case (if i < length (hr_IsDay h)
           then (case index_at (hr_IsDay h) i of Inl e \<Rightarrow> Inl e | Inr d \<Rightarrow> Inr (d = 1))
           else Inr False) of
       Inl e \<Rightarrow> Inl e
     | Inr isDay \<Rightarrow>
     (case index_at (hr_WeatherCode h) i of
        Inl e \<Rightarrow> Inl e
      | Inr code \<Rightarrow>
      (let hourEmoji = snd (weatherCodeToCondition code isDay) in
       case (if i < length (hr_PrecipProb h) then index_at (hr_PrecipProb h) i else Inr 0) of
         Inl e \<Rightarrow> Inl e
       | Inr precipProb \<Rightarrow>
       (case index_at (hr_Temperature2m h) i of
          Inl e \<Rightarrow> Inl e
        | Inr temperature \<Rightarrow>
            Inr \<lparr>hf_Time = timeStr,
                 hf_Hour = hourDisplay timeStr,
                 hf_Temperature = temperature,
                 hf_WeatherCode = code,
                 hf_ConditionEmoji = hourEmoji,
                 hf_PrecipProb = precipProb,
                 hf_IsDay = isDay\<rparr>))))"

text \<open>
  The loop \<^verbatim>\<open>for i, timeStr := range data.Hourly.Time\<close>: \<open>i\<close> is the index, the
  third argument the timestamps not yet visited, \<open>acc\<close> the slice \<^verbatim>\<open>hourly\<close> built
  so far. The \<^verbatim>\<open>break\<close> returns what has been appended.
\<close>

fun hourly_loop ::
  "hourly \<Rightarrow> nat \<Rightarrow> string list \<Rightarrow> HourlyForecast list \<Rightarrow> runtime_error + HourlyForecast list" where
  "hourly_loop h i [] acc = Inr acc"
| "hourly_loop h i (timeStr # rest) acc =
    (if i \<ge> length (hr_Temperature2m h) \<or> i \<ge> length (hr_WeatherCode h) then Inr acc
     else (case hourly_entry h i timeStr of
             Inl e \<Rightarrow> Inl e
           | Inr entry \<Rightarrow> hourly_loop h (Suc i) rest (acc @ [entry])))"

text \<open>The part of \<^verbatim>\<open>fetchWeather\<close> after the payload is decoded.\<close>

definition build_weather :: "openMeteoResponse \<Rightarrow> WeatherData" where
  "build_weather data =
    (let (condition, emoji) =
           weatherCodeToCondition (cur_WeatherCode (Current data)) (cur_IsDay (Current data) = 1)
     in \<lparr>wd_Temperature = cur_Temperature2m (Current data),
         wd_FeelsLike = cur_ApparentTemp (Current data),
         wd_Humidity = cur_RelativeHumidity (Current data),
         wd_WindSpeed = cur_WindSpeed10m (Current data),
         wd_WindDirection = cur_WindDirection10m (Current data),
         wd_WeatherCode = cur_WeatherCode (Current data),
         wd_IsDay = (cur_IsDay (Current data) = 1),
         wd_Precipitation = cur_Precipitation (Current data),
         wd_CloudCover = cur_CloudCover (Current data),
         wd_LastUpdated = cur_Time (Current data),
         wd_Condition = condition,
         wd_ConditionEmoji = emoji\<rparr>)"

definition build_hourly :: "openMeteoResponse \<Rightarrow> runtime_error + HourlyForecast list" where
  "build_hourly data = hourly_loop (Hourly data) 0 (hr_Time (Hourly data)) []"

text \<open>
  What the network hands to \<^verbatim>\<open>fetchWeather\<close>: \<^verbatim>\<open>client.Get\<close> fails, or it
  answers with a status code and a body; the body decodes to a response or fails to
  decode (\<open>None\<close>). The three error returns are the three constructors of
  \<open>fetch_error\<close>. The result is a panic (\<open>Inl\<close>) or what the function returns: an
  error, or the two values.
\<close>

datatype http_outcome = GetFailed | Reply int "openMeteoResponse option"

datatype fetch_error = FetchFailed | BadStatus int | DecodeFailed

definition fetchWeather ::
  "http_outcome \<Rightarrow> runtime_error + (fetch_error + (WeatherData \<times> HourlyForecast list))" where
  "fetchWeather outcome =
    (case outcome of
       GetFailed \<Rightarrow> Inr (Inl FetchFailed)
     | Reply status body \<Rightarrow>
         if status \<noteq> 200 then Inr (Inl (BadStatus status))
         else (case body of
                 None \<Rightarrow> Inr (Inl DecodeFailed)
               | Some data \<Rightarrow>
                   (let weather = build_weather data in
                    case build_hourly data of
                      Inl e \<Rightarrow> Inl e
                    | Inr hourly \<Rightarrow> Inr (Inr (weather, hourly)))))"

subsection \<open>\<^verbatim>\<open>float64\<close> arithmetic\<close>

text \<open>
  A finite \<^verbatim>\<open>float64\<close> is the rational it denotes; an operation computes the exact
  result and rounds it to the nearest number with a 53-bit significand, ties to the even
  significand. The values that \<^verbatim>\<open>windDirectionToCompass\<close> rounds are a 64-bit integer,
  its quotient by 22.5 and that quotient plus one half: all are zero or lie between
  \<open>2\<^sup>-\<^sup>7\<close> and \<open>2\<^sup>6\<^sup>4\<close> in magnitude, far inside the normal range, so neither overflow
  nor gradual underflow is modelled.
\<close>

definition pow2 :: "int \<Rightarrow> rat" where
  "pow2 e = (if 0 \<le> e then 2 ^ nat e else 1 / 2 ^ nat (- e))"

text \<open>The binary exponent of a positive rational: \<open>pow2 e \<le> x < pow2 (e + 1)\<close>.\<close>

definition float_exponent :: "rat \<Rightarrow> int" where
  "float_exponent x =
    (let (p, q) = quotient_of x;
         e0 = bitlen p - bitlen q
     in if pow2 e0 \<le> x then e0 else e0 - 1)"

definition round_half_even :: "rat \<Rightarrow> int" where
  "round_half_even m =
    (let f = \<lfloor>m\<rfloor>; r = m - of_int f
     in if r < 1 / 2 then f else if 1 / 2 < r then f + 1 else if even f then f else f + 1)"

definition round_float64 :: "rat \<Rightarrow> float64" where
  "round_float64 x =
    (if x = 0 then 0
     else let u = pow2 (float_exponent \<bar>x\<bar> - 52)
          in sgn x * of_int (round_half_even (\<bar>x\<bar> / u)) * u)"

text \<open>
  The conversion \<^verbatim>\<open>int(f)\<close> drops the fraction (towards zero). Go leaves the result
  to the implementation when it does not fit the 64-bit \<^verbatim>\<open>int\<close>; the model returns
  \<open>None\<close> there.
\<close>

definition truncate_rat :: "rat \<Rightarrow> int" where
  "truncate_rat f = (if 0 \<le> f then \<lfloor>f\<rfloor> else - \<lfloor>- f\<rfloor>)"

definition int_of_float64 :: "float64 \<Rightarrow> int option" where
  "int_of_float64 f =
    (let n = truncate_rat f in if - (2 ^ 63) \<le> n \<and> n < 2 ^ 63 then Some n else None)"

text \<open>Go's \<^verbatim>\<open>%\<close> on integers: the remainder takes the sign of the dividend.\<close>

definition go_rem :: "int \<Rightarrow> int \<Rightarrow> int" where
  "go_rem a b = sgn a * (\<bar>a\<bar> mod \<bar>b\<bar>)"

subsection \<open>\<^verbatim>\<open>windDirectionToCompass\<close>\<close>

definition directions :: "string list" where
  "directions = [''N'', ''NNE'', ''NE'', ''ENE'', ''E'', ''ESE'', ''SE'', ''SSE'',
                 ''S'', ''SSW'', ''SW'', ''WSW'', ''W'', ''WNW'', ''NW'', ''NNW'']"

text \<open>
  \<^verbatim>\<open>index := int(float64(degrees)/22.5+0.5) % 16\<close>, then \<^verbatim>\<open>directions[index]\<close>. The
  constants 22.5 and 0.5 are exact in \<^verbatim>\<open>float64\<close>.
\<close>

definition compass_index :: "int \<Rightarrow> int option" where
  "compass_index degrees =
    (case int_of_float64
            (round_float64 (round_float64 (round_float64 (of_int degrees) / (45 / 2)) + 1 / 2)) of
       None \<Rightarrow> None
     | Some n \<Rightarrow> Some (go_rem n 16))"

definition windDirectionToCompass :: "int \<Rightarrow> runtime_error + string" where
  "windDirectionToCompass degrees =
    (case compass_index degrees of
       None \<Rightarrow> Inl ConversionOutOfRange
     | Some index \<Rightarrow>
         if 0 \<le> index \<and> index < int (length directions) then Inr (directions ! nat index)
         else Inl (IndexOutOfRange index))"

text \<open>
  The helper as the specification words it: \<open>round(degrees / 22.5) mod 16\<close>, rounding
  half up, in exact arithmetic, with the mathematical remainder.
\<close>

definition round_half_up :: "rat \<Rightarrow> int" where
  "round_half_up x = \<lfloor>x + 1 / 2\<rfloor>"

definition CompassDirection_spec :: "int \<Rightarrow> string" where
  "CompassDirection_spec degrees =
    directions ! nat (round_half_up (of_int degrees / (45 / 2)) mod 16)"

subsection \<open>The entries the loop appends, and sample payloads\<close>

text \<open>
  The entry for index \<open>i\<close> and timestamp \<open>timeStr\<close>, written without the checked
  reads: what \<open>hourly_entry\<close> returns whenever \<open>i\<close> is in range of the temperature and
  weather-code slices.
\<close>

definition expected_entry :: "hourly \<Rightarrow> nat \<Rightarrow> string \<Rightarrow> HourlyForecast" where
  "expected_entry h i timeStr =
    (let isDay = (i < length (hr_IsDay h) \<and> hr_IsDay h ! i = 1)
     in \<lparr>hf_Time = timeStr,
         hf_Hour = hourDisplay timeStr,
         hf_Temperature = hr_Temperature2m h ! i,
         hf_WeatherCode = hr_WeatherCode h ! i,
         hf_ConditionEmoji = snd (weatherCodeToCondition (hr_WeatherCode h ! i) isDay),
         hf_PrecipProb = (if i < length (hr_PrecipProb h) then hr_PrecipProb h ! i else 0),
         hf_IsDay = isDay\<rparr>)"

definition hourly_count :: "hourly \<Rightarrow> nat" where
  "hourly_count h =
    min (length (hr_Time h)) (min (length (hr_Temperature2m h)) (length (hr_WeatherCode h)))"

text \<open>
  A payload with 24 timestamps and temperatures, 20 weather codes, three precipitation
  probabilities and no day/night flag at all.
\<close>

definition sample_times :: "string list" where
  "sample_times =
    [''2024-03-15T00:00'', ''2024-03-15T01:00'', ''2024-03-15T02:00'',
     ''2024-03-15T03:00'', ''2024-03-15T04:00'', ''2024-03-15T05:00'',
     ''2024-03-15T06:00'', ''2024-03-15T07:00'', ''2024-03-15T08:00'',
     ''2024-03-15T09:00'', ''2024-03-15T10:00'', ''2024-03-15T11:00'',
     ''2024-03-15T12:00'', ''2024-03-15T13:00'', ''2024-03-15T14:00'',
     ''2024-03-15T15:00'', ''2024-03-15T16:00'', ''2024-03-15T17:00'',
     ''2024-03-15T18:00'', ''2024-03-15T19:00'', ''2024-03-15T20:00'',
     ''2024-03-15T21:00'', ''2024-03-15T22:00'', ''2024-03-15T23:00'']"

definition sample_current :: current where
  "sample_current =
    \<lparr>cur_Time = ''2024-03-15T15:00'', cur_Temperature2m = 131 / 2, cur_ApparentTemp = 63,
     cur_RelativeHumidity = 40, cur_WindSpeed10m = 7 / 2, cur_WindDirection10m = 270,
     cur_WeatherCode = 1, cur_IsDay = 1, cur_Precipitation = 1 / 4, cur_CloudCover = 25\<rparr>"

definition sample_response :: openMeteoResponse where
  "sample_response =
    \<lparr>Current = sample_current,
     Hourly = \<lparr>hr_Time = sample_times,
               hr_Temperature2m = replicate 24 (131 / 2),
               hr_WeatherCode = [0, 1, 2, 3, 45, 48, 51, 53, 55, 56, 57, 61, 63, 65, 66, 67,
                                 71, 73, 75, 77],
               hr_PrecipProb = [10, 20, 30],
               hr_IsDay = []\<rparr>\<rparr>"

text \<open>
  A payload whose day/night flags take the values 1, 0, 2 and -1 and stop before the
  fifth hour; the flag of the current conditions is 2.
\<close>

definition sample_flags :: openMeteoResponse where
  "sample_flags =
    \<lparr>Current = sample_current\<lparr>cur_IsDay := 2\<rparr>,
     Hourly = \<lparr>hr_Time = take 5 sample_times,
               hr_Temperature2m = [50, 51, 52, 53, 54],
               hr_WeatherCode = [0, 0, 0, 0, 0],
               hr_PrecipProb = [],
               hr_IsDay = [1, 0, 2, - 1]\<rparr>\<rparr>"

section \<open>Properties\<close>

subsection \<open>The condition mapping\<close>

lemma emoji_day_night_distinct:
  "emoji_sun \<noteq> emoji_moon \<and> emoji_sun_small_cloud \<noteq> emoji_moon \<and> emoji_sun \<noteq> emoji_sun_small_cloud"
  by (simp add: emoji_sun_def emoji_moon_def emoji_sun_small_cloud_def)

text \<open>
  Claim C1. Every code of the condition-mapping table gets its label and icon, for both
  values of the flag unless stated: codes 0 and 1 get the sun (the sun behind a small
  cloud) by day and the moon by night, and the day icon differs from the moon; the codes
  of one row (45/48, 51/53/55, 56/57, 61/63/65, 66/67, 71/73/75, 80/81/82, 85/86,
  96/99) get the same pair.
\<close>

theorem weatherCodeToCondition_table:
  "weatherCodeToCondition 0 True = (''Clear sky'', emoji_sun) \<and>
   weatherCodeToCondition 0 False = (''Clear sky'', emoji_moon) \<and>
   weatherCodeToCondition 1 True = (''Mainly clear'', emoji_sun_small_cloud) \<and>
   weatherCodeToCondition 1 False = (''Mainly clear'', emoji_moon) \<and>
   emoji_sun \<noteq> emoji_moon \<and> emoji_sun_small_cloud \<noteq> emoji_moon \<and>
   weatherCodeToCondition 2 isDay = (''Partly cloudy'', emoji_sun_behind_cloud) \<and>
   weatherCodeToCondition 3 isDay = (''Overcast'', emoji_cloud) \<and>
   weatherCodeToCondition 45 isDay = (''Foggy'', emoji_fog) \<and>
   weatherCodeToCondition 48 isDay = (''Foggy'', emoji_fog) \<and>
   weatherCodeToCondition 51 isDay = (''Drizzle'', emoji_rain_cloud) \<and>
   weatherCodeToCondition 53 isDay = (''Drizzle'', emoji_rain_cloud) \<and>
   weatherCodeToCondition 55 isDay = (''Drizzle'', emoji_rain_cloud) \<and>
   weatherCodeToCondition 56 isDay = (''Freezing drizzle'', emoji_rain_cloud @ emoji_snowflake) \<and>
   weatherCodeToCondition 57 isDay = (''Freezing drizzle'', emoji_rain_cloud @ emoji_snowflake) \<and>
   weatherCodeToCondition 61 isDay = (''Rain'', emoji_rain_cloud) \<and>
   weatherCodeToCondition 63 isDay = (''Rain'', emoji_rain_cloud) \<and>
   weatherCodeToCondition 65 isDay = (''Rain'', emoji_rain_cloud) \<and>
   weatherCodeToCondition 66 isDay = (''Freezing rain'', emoji_rain_cloud @ emoji_snowflake) \<and>
   weatherCodeToCondition 67 isDay = (''Freezing rain'', emoji_rain_cloud @ emoji_snowflake) \<and>
   weatherCodeToCondition 71 isDay = (''Snow'', emoji_snow_cloud) \<and>
   weatherCodeToCondition 73 isDay = (''Snow'', emoji_snow_cloud) \<and>
   weatherCodeToCondition 75 isDay = (''Snow'', emoji_snow_cloud) \<and>
   weatherCodeToCondition 77 isDay = (''Snow grains'', emoji_snow_cloud) \<and>
   weatherCodeToCondition 80 isDay = (''Rain showers'', emoji_sun_rain_cloud) \<and>
   weatherCodeToCondition 81 isDay = (''Rain showers'', emoji_sun_rain_cloud) \<and>
   weatherCodeToCondition 82 isDay = (''Rain showers'', emoji_sun_rain_cloud) \<and>
   weatherCodeToCondition 85 isDay = (''Snow showers'', emoji_snow_cloud) \<and>
   weatherCodeToCondition 86 isDay = (''Snow showers'', emoji_snow_cloud) \<and>
   weatherCodeToCondition 95 isDay = (''Thunderstorm'', emoji_thunder_cloud) \<and>
   weatherCodeToCondition 96 isDay = (''Thunderstorm with hail'', emoji_thunder_cloud) \<and>
   weatherCodeToCondition 99 isDay = (''Thunderstorm with hail'', emoji_thunder_cloud)"
  using emoji_day_night_distinct by (simp add: weatherCodeToCondition_def)

text \<open>
  Claim C7. A code outside the table maps to the label Unknown and the question-mark
  icon, by day and by night.
\<close>

theorem weatherCodeToCondition_unknown:
  "code \<notin> mapped_codes \<Longrightarrow> weatherCodeToCondition code isDay = (''Unknown'', emoji_question)"
  by (simp add: mapped_codes_def weatherCodeToCondition_def)

theorem weatherCodeToCondition_unknown_witness:
  "(4::int) \<notin> mapped_codes \<and> (- 1::int) \<notin> mapped_codes \<and> 
   weatherCodeToCondition 4 True = (''Unknown'', emoji_question) \<and>
   weatherCodeToCondition 4 False = (''Unknown'', emoji_question) \<and>
   weatherCodeToCondition (- 1) True = (''Unknown'', emoji_question)"
proof -
  have a: "(4::int) \<notin> mapped_codes" and b: "(- 1::int) \<notin> mapped_codes"
    by (simp_all add: mapped_codes_def)
  show ?thesis
    using a b weatherCodeToCondition_unknown [OF a, of True]
      weatherCodeToCondition_unknown [OF a, of False]
      weatherCodeToCondition_unknown [OF b, of True]
    by (intro conjI)
qed

text \<open>
  Claim C8. For a code of the table other than 0 and 1 the flag does not matter: day
  and night give the same label and icon.
\<close>

theorem weatherCodeToCondition_ignores_isDay:
  "code \<in> mapped_codes \<Longrightarrow> code \<noteq> 0 \<Longrightarrow> code \<noteq> 1 \<Longrightarrow>
   weatherCodeToCondition code True = weatherCodeToCondition code False"
  by (simp add: weatherCodeToCondition_def)

theorem weatherCodeToCondition_ignores_isDay_witness:
  "(45::int) \<in> mapped_codes \<and> (45::int) \<noteq> 0 \<and> (45::int) \<noteq> 1 \<and>
   weatherCodeToCondition 45 True = weatherCodeToCondition 45 False"
proof -
  have a: "(45::int) \<in> mapped_codes" by (simp add: mapped_codes_def)
  have b: "(45::int) \<noteq> 0" and c: "(45::int) \<noteq> 1" by simp_all
  show ?thesis
    using a b c weatherCodeToCondition_ignores_isDay [OF a b c] by (intro conjI)
qed

subsection \<open>The hourly loop\<close>

lemma hourly_entry_in_range:
  assumes "i < length (hr_Temperature2m h)" and "i < length (hr_WeatherCode h)"
  shows "hourly_entry h i timeStr = Inr (expected_entry h i timeStr)"
  using assms by (simp add: hourly_entry_def expected_entry_def index_at_def Let_def)

lemma hourly_loop_eq:
  "hourly_loop h i ts acc =
     Inr (acc @ map (\<lambda>k. expected_entry h (i + k) (ts ! k))
            [0..<min (length ts)
                  (min (length (hr_Temperature2m h) - i) (length (hr_WeatherCode h) - i))])"
proof (induction ts arbitrary: i acc)
  case Nil
  show ?case by simp
next
  case (Cons t rest)
  show ?case
  proof (cases "i \<ge> length (hr_Temperature2m h) \<or> i \<ge> length (hr_WeatherCode h)")
    case True
    then show ?thesis by auto
  next
    case False
    let ?n = "min (length rest)
                (min (length (hr_Temperature2m h) - Suc i) (length (hr_WeatherCode h) - Suc i))"
    have e: "hourly_entry h i t = Inr (expected_entry h i t)"
      using False by (simp add: hourly_entry_in_range)
    have n: "min (length (t # rest))
               (min (length (hr_Temperature2m h) - i) (length (hr_WeatherCode h) - i)) = Suc ?n"
      using False by (simp add: min_def) arith
    have m: "map (\<lambda>k. expected_entry h (i + k) ((t # rest) ! k)) [0..<Suc ?n] =
             expected_entry h i t # map (\<lambda>k. expected_entry h (Suc i + k) (rest ! k)) [0..<?n]"
      by (simp add: upt_conv_Cons del: upt_Suc flip: map_Suc_upt)
    show ?thesis
      using False e Cons.IH [of "Suc i" "acc @ [expected_entry h i t]"]
      unfolding n m by simp
  qed
qed

lemma build_hourly_eq:
  "build_hourly data =
     Inr (map (\<lambda>k. expected_entry (Hourly data) k (hr_Time (Hourly data) ! k))
            [0..<hourly_count (Hourly data)])"
  by (simp add: build_hourly_def hourly_loop_eq hourly_count_def)

lemma fetchWeather_decoded:
  "fetchWeather (Reply 200 (Some data)) =
     Inr (Inr (build_weather data,
               map (\<lambda>k. expected_entry (Hourly data) k (hr_Time (Hourly data) ! k))
                 [0..<hourly_count (Hourly data)]))"
  by (simp add: fetchWeather_def build_hourly_eq)

lemma sample_lengths:
  "length (hr_Time (Hourly sample_response)) = 24"
  "length (hr_Temperature2m (Hourly sample_response)) = 24"
  "length (hr_WeatherCode (Hourly sample_response)) = 20"
  "length (hr_PrecipProb (Hourly sample_response)) = 3"
  "hr_IsDay (Hourly sample_response) = []"
  by (simp_all add: sample_response_def sample_times_def)

text \<open>
  Claim C2. On a decoded response \<^verbatim>\<open>fetchWeather\<close> returns, and the hourly sequence
  follows the timestamps in order up to the first index that the temperature slice or
  the weather-code slice does not have: its length is the least of the three lengths,
  and entry \<open>k\<close> carries timestamp, temperature and code number \<open>k\<close>. With 24
  temperatures, 20 codes and at least 20 timestamps it has exactly 20 entries.
\<close>

theorem fetchWeather_hourly_stops:
  "\<exists>weather hourly.
     fetchWeather (Reply 200 (Some data)) = Inr (Inr (weather, hourly)) \<and>
     length hourly =
       min (length (hr_Time (Hourly data)))
         (min (length (hr_Temperature2m (Hourly data))) (length (hr_WeatherCode (Hourly data)))) \<and>
     (\<forall>k < length hourly.
        hf_Time (hourly ! k) = hr_Time (Hourly data) ! k \<and>
        hf_Temperature (hourly ! k) = hr_Temperature2m (Hourly data) ! k \<and>
        hf_WeatherCode (hourly ! k) = hr_WeatherCode (Hourly data) ! k) \<and>
     (length (hr_Temperature2m (Hourly data)) = 24 \<and>
      length (hr_WeatherCode (Hourly data)) = 20 \<and>
      20 \<le> length (hr_Time (Hourly data)) \<longrightarrow> length hourly = 20)"
  by (simp add: fetchWeather_decoded hourly_count_def expected_entry_def Let_def)

theorem fetchWeather_hourly_stops_witness:
  "\<exists>weather hourly.
     fetchWeather (Reply 200 (Some sample_response)) = Inr (Inr (weather, hourly)) \<and>
     length hourly = 20 \<and>
     hf_Time (hourly ! 19) = ''2024-03-15T19:00'' \<and>
     hf_WeatherCode (hourly ! 19) = 77"
proof -
  obtain weather hourly where
    r: "fetchWeather (Reply 200 (Some sample_response)) = Inr (Inr (weather, hourly))" and
    n: "length (hr_Temperature2m (Hourly sample_response)) = 24 \<and>
        length (hr_WeatherCode (Hourly sample_response)) = 20 \<and>
        20 \<le> length (hr_Time (Hourly sample_response)) \<longrightarrow> length hourly = 20" and
    e: "\<forall>k < length hourly.
          hf_Time (hourly ! k) = hr_Time (Hourly sample_response) ! k \<and>
          hf_Temperature (hourly ! k) = hr_Temperature2m (Hourly sample_response) ! k \<and>
          hf_WeatherCode (hourly ! k) = hr_WeatherCode (Hourly sample_response) ! k"
    using fetchWeather_hourly_stops [of sample_response] by blast
  have l: "length hourly = 20"
    using n by (simp add: sample_lengths)
  have "hf_Time (hourly ! 19) = hr_Time (Hourly sample_response) ! 19 \<and>
        hf_WeatherCode (hourly ! 19) = hr_WeatherCode (Hourly sample_response) ! 19"
    using e l by simp
  then have "hf_Time (hourly ! 19) = ''2024-03-15T19:00'' \<and> hf_WeatherCode (hourly ! 19) = 77"
    by (simp add: sample_response_def sample_times_def)
  with r l show ?thesis by blast
qed

lemma flags_lengths:
  "hr_IsDay (Hourly sample_flags) = [1, 0, 2, - 1]"
  "length (hr_Time (Hourly sample_flags)) = 5"
  "length (hr_Temperature2m (Hourly sample_flags)) = 5"
  "length (hr_WeatherCode (Hourly sample_flags)) = 5"
  "cur_IsDay (Current sample_flags) = 2"
  by (simp_all add: sample_flags_def sample_times_def)

text \<open>
  Claim C5. On a decoded response \<^verbatim>\<open>fetchWeather\<close> returns without a panic or an
  error, and the number of entries does not depend on the day/night and the
  precipitation-probability slices. An entry whose index the day/night slice does not
  have is a night entry, one whose index the precipitation-probability slice does not
  have carries probability 0; with an empty day/night slice every entry is a night
  entry.
\<close>

theorem fetchWeather_hourly_defaults:
  "\<exists>weather hourly.
     fetchWeather (Reply 200 (Some data)) = Inr (Inr (weather, hourly)) \<and>
     length hourly =
       min (length (hr_Time (Hourly data)))
         (min (length (hr_Temperature2m (Hourly data))) (length (hr_WeatherCode (Hourly data)))) \<and>
     (\<forall>k < length hourly.
        (length (hr_IsDay (Hourly data)) \<le> k \<longrightarrow> hf_IsDay (hourly ! k) = False) \<and>
        (length (hr_PrecipProb (Hourly data)) \<le> k \<longrightarrow> hf_PrecipProb (hourly ! k) = 0)) \<and>
     (hr_IsDay (Hourly data) = [] \<longrightarrow> (\<forall>k < length hourly. hf_IsDay (hourly ! k) = False))"
  by (simp add: fetchWeather_decoded hourly_count_def expected_entry_def Let_def)

theorem fetchWeather_hourly_defaults_witness:
  "\<exists>weather hourly.
     fetchWeather (Reply 200 (Some sample_response)) = Inr (Inr (weather, hourly)) \<and>
     length hourly = 20 \<and>
     hf_IsDay (hourly ! 0) = False \<and> hf_IsDay (hourly ! 19) = False \<and>
     hf_PrecipProb (hourly ! 3) = 0 \<and> hf_PrecipProb (hourly ! 19) = 0"
proof -
  obtain weather hourly where
    r: "fetchWeather (Reply 200 (Some sample_response)) = Inr (Inr (weather, hourly))" and
    n: "length hourly =
          min (length (hr_Time (Hourly sample_response)))
            (min (length (hr_Temperature2m (Hourly sample_response)))
               (length (hr_WeatherCode (Hourly sample_response))))" and
    d: "\<forall>k < length hourly.
          (length (hr_IsDay (Hourly sample_response)) \<le> k \<longrightarrow> hf_IsDay (hourly ! k) = False) \<and>
          (length (hr_PrecipProb (Hourly sample_response)) \<le> k \<longrightarrow>
             hf_PrecipProb (hourly ! k) = 0)" and
    a: "hr_IsDay (Hourly sample_response) = [] \<longrightarrow>
          (\<forall>k < length hourly. hf_IsDay (hourly ! k) = False)"
    using fetchWeather_hourly_defaults [of sample_response] by blast
  have l: "length hourly = 20"
    using n by (simp add: sample_lengths)
  have i: "hf_IsDay (hourly ! 0) = False \<and> hf_IsDay (hourly ! 19) = False"
    using a l by (simp add: sample_lengths)
  have p: "hf_PrecipProb (hourly ! 3) = 0 \<and> hf_PrecipProb (hourly ! 19) = 0"
    using d l by (simp add: sample_lengths)
  from r l i p show ?thesis by blast
qed

text \<open>
  Claim C9. The current-conditions record copies temperature, apparent temperature,
  humidity, wind speed, wind direction, weather code, precipitation, cloud cover and
  the observation time from the payload; its flag is the comparison of the payload's
  integer with 1, and its label and icon are the condition mapping of the current code
  under that flag.
\<close>

theorem fetchWeather_current_copied:
  "\<exists>weather hourly.
     fetchWeather (Reply 200 (Some data)) = Inr (Inr (weather, hourly)) \<and>
     wd_Temperature weather = cur_Temperature2m (Current data) \<and>
     wd_FeelsLike weather = cur_ApparentTemp (Current data) \<and>
     wd_Humidity weather = cur_RelativeHumidity (Current data) \<and>
     wd_WindSpeed weather = cur_WindSpeed10m (Current data) \<and>
     wd_WindDirection weather = cur_WindDirection10m (Current data) \<and>
     wd_WeatherCode weather = cur_WeatherCode (Current data) \<and>
     wd_Precipitation weather = cur_Precipitation (Current data) \<and>
     wd_CloudCover weather = cur_CloudCover (Current data) \<and>
     wd_LastUpdated weather = cur_Time (Current data) \<and>
     wd_IsDay weather = (cur_IsDay (Current data) = 1) \<and>
     (wd_Condition weather, wd_ConditionEmoji weather) =
       weatherCodeToCondition (cur_WeatherCode (Current data)) (cur_IsDay (Current data) = 1)"
  by (simp add: fetchWeather_decoded build_weather_def split_beta)

text \<open>
  Claim C10. The flag of the current conditions is true exactly when the payload's
  integer is 1, and the flag of hourly entry \<open>k\<close> is true exactly when the day/night
  slice has an element \<open>k\<close> and it is 1; any other integer gives false, and the
  function still returns.
\<close>

theorem fetchWeather_isDay_iff_one:
  "\<exists>weather hourly.
     fetchWeather (Reply 200 (Some data)) = Inr (Inr (weather, hourly)) \<and>
     wd_IsDay weather = (cur_IsDay (Current data) = 1) \<and>
     (\<forall>k < length hourly.
        hf_IsDay (hourly ! k) =
          (k < length (hr_IsDay (Hourly data)) \<and> hr_IsDay (Hourly data) ! k = 1))"
  by (simp add: fetchWeather_decoded build_weather_def split_beta expected_entry_def Let_def)

theorem fetchWeather_isDay_iff_one_witness:
  "\<exists>weather hourly.
     fetchWeather (Reply 200 (Some sample_flags)) = Inr (Inr (weather, hourly)) \<and>
     length hourly = 5 \<and>
     wd_IsDay weather = False \<and>
     hf_IsDay (hourly ! 0) = True \<and> hf_IsDay (hourly ! 1) = False \<and>
     hf_IsDay (hourly ! 2) = False \<and> hf_IsDay (hourly ! 3) = False \<and>
     hf_IsDay (hourly ! 4) = False"
proof -
  obtain weather hourly where
    r: "fetchWeather (Reply 200 (Some sample_flags)) = Inr (Inr (weather, hourly))" and
    c: "wd_IsDay weather = (cur_IsDay (Current sample_flags) = 1)" and
    h: "\<forall>k < length hourly.
          hf_IsDay (hourly ! k) =
            (k < length (hr_IsDay (Hourly sample_flags)) \<and> hr_IsDay (Hourly sample_flags) ! k = 1)"
    using fetchWeather_isDay_iff_one [of sample_flags] by blast
  have l: "length hourly = 5"
    using r by (auto simp: fetchWeather_decoded hourly_count_def flags_lengths)
  have "wd_IsDay weather = False"
    using c by (simp add: flags_lengths)
  moreover have "hf_IsDay (hourly ! 0) = True \<and> hf_IsDay (hourly ! 1) = False \<and>
      hf_IsDay (hourly ! 2) = False \<and> hf_IsDay (hourly ! 3) = False \<and>
      hf_IsDay (hourly ! 4) = False"
    using h l by (simp add: flags_lengths)
  ultimately show ?thesis using r l by blast
qed

end
